theory Spec2Isabelle
  imports Main "HOL-Library.Sublist" "HOL-Library.Multiset" "HOL-Library.Char_ord"
    "HOL-Library.List_Lexorder" "HOL-Library.AList"
begin

section \<open>Text primitives of the Python runtime\<close>

text \<open>
  Python's \<open>str\<close> is a sequence of code points. It is modelled by \<open>string\<close>, a
  \<open>char\<close> standing for the code point of the same number, so the model covers the texts
  whose code points are below 256. The special characters are written by number.
\<close>

abbreviation bslash :: char where "bslash \<equiv> CHR 0x5C"
abbreviation dquote :: char where "dquote \<equiv> CHR 0x22"
abbreviation squote :: char where "squote \<equiv> CHR 0x27"
abbreviation newline :: char where "newline \<equiv> CHR 0x0A"
abbreviation tab :: char where "tab \<equiv> CHR 0x09"

text \<open>\<open>str.isspace\<close> on one character, for the code points below 256.\<close>

definition isspace :: "char \<Rightarrow> bool" where
  "isspace c = (c \<in> {CHR 0x09, CHR 0x0A, CHR 0x0B, CHR 0x0C, CHR 0x0D,
                     CHR 0x1C, CHR 0x1D, CHR 0x1E, CHR 0x1F, CHR 0x20, CHR 0x85, CHR 0xA0})"

text \<open>\<open>str.strip()\<close> without argument.\<close>

definition strip :: "string \<Rightarrow> string" where
  "strip s = rev (dropWhile isspace (rev (dropWhile isspace s)))"

text \<open>
  \<open>str.replace(old, new)\<close>: the non-overlapping occurrences of \<open>old\<close>, found from the
  left, are replaced. For the empty \<open>old\<close> Python puts \<open>new\<close> before every character and
  at the end.
\<close>

function replace :: "string \<Rightarrow> string \<Rightarrow> string \<Rightarrow> string" where
  "replace old new [] = (if old = [] then new else [])"
| "replace old new (c # cs) =
     (if old = [] then new @ c # replace old new cs
      else if prefix old (c # cs) then new @ replace old new (drop (length old) (c # cs))
      else c # replace old new cs)"
  by pat_completeness auto
termination
  by (relation "measure (\<lambda>(old, new, s). length s)") auto

text \<open>The character classes \<open>[A-Z]\<close> and \<open>[0-9]\<close> of the regular expressions.\<close>

definition is_upper :: "char \<Rightarrow> bool" where
  "is_upper c = (CHR ''A'' \<le> c \<and> c \<le> CHR ''Z'')"

definition is_digit :: "char \<Rightarrow> bool" where
  "is_digit c = (CHR ''0'' \<le> c \<and> c \<le> CHR ''9'')"

section \<open>Locale codes of resource directories\<close>

text \<open>
  \<open>re.sub(r'-r([A-Z]{2})', r'-\1', s)\<close>: scanning from the left, every occurrence of
  \<open>-r\<close> followed by two capitals loses its \<open>r\<close>; the scan goes on behind the match.
\<close>

fun sub_region :: "string \<Rightarrow> string" where
  "sub_region (a # b # c # d # rest) =
     (if a = CHR ''-'' \<and> b = CHR ''r'' \<and> is_upper c \<and> is_upper d
      then CHR ''-'' # c # d # sub_region rest
      else a # sub_region (b # c # d # rest))"
| "sub_region s = s"

text \<open>\<open>APKStringExtractor._extract_language_code\<close> (the same in both extractors).\<close>

definition extract_language_code :: "string \<Rightarrow> string" where
  "extract_language_code values_dir_name =
     (if values_dir_name = ''values'' then ''default''
      else sub_region (replace ''values-'' [] values_dir_name))"

section \<open>Unescaping of resource text\<close>

text \<open>
  \<open>APKStringExtractor._unescape_xml\<close> (the same in both extractors): five replacements
  of markup entities, five replacements of platform escapes, then \<open>strip\<close>.
\<close>

definition unescape_xml :: "string \<Rightarrow> string" where
  "unescape_xml text =
     (if text = [] then []
      else
        let text = replace ''&lt;'' ''<'' text;
            text = replace ''&gt;'' ''>'' text;
            text = replace ''&amp;'' ''&'' text;
            text = replace ''&quot;'' [dquote] text;
            text = replace ''&apos;'' [squote] text;
            text = replace [bslash, dquote] [dquote] text;
            text = replace [bslash, squote] [squote] text;
            text = replace [bslash, CHR ''n''] [newline] text;
            text = replace [bslash, CHR ''t''] [tab] text;
            text = replace [bslash, bslash] [bslash] text
        in strip text)"

section \<open>Placeholders\<close>

text \<open>
  \<open>re.finditer\<close> for a pattern given by its matcher: \<open>m s\<close> is the length of the match
  of the pattern at the start of \<open>s\<close>, if there is one. The scan yields each match with
  its start position and goes on behind it; where nothing matches it moves one character
  on. Both patterns below match at least two characters; \<open>max 1\<close> only keeps the scan
  total for an arbitrary matcher.
\<close>

function finditer :: "(string \<Rightarrow> nat option) \<Rightarrow> nat \<Rightarrow> string \<Rightarrow> (nat \<times> string) list" where
  "finditer m pos [] = []"
| "finditer m pos (c # cs) =
     (case m (c # cs) of
        None \<Rightarrow> finditer m (Suc pos) cs
      | Some k \<Rightarrow> (pos, take k (c # cs)) # finditer m (pos + max 1 k) (drop (max 1 k) (c # cs)))"
  by pat_completeness auto
termination
  by (relation "measure (\<lambda>(m, pos, s). length s)") auto

text \<open>
  The pattern \<open>%(\d+)\$[sd]\<close> at the start of a text: a percent sign, the longest run of
  digits, which must not be empty, a dollar sign and one of the letters \<open>s\<close>, \<open>d\<close>.
  (Giving back digits cannot help the match, since a digit is not a dollar sign.)
\<close>

definition match_numbered :: "string \<Rightarrow> nat option" where
  "match_numbered s =
     (case s of
        [] \<Rightarrow> None
      | c # r \<Rightarrow>
          if c = CHR ''%'' \<and> takeWhile is_digit r \<noteq> [] then
            (case dropWhile is_digit r of
               a # b # _ \<Rightarrow>
                 if a = CHR ''$'' \<and> (b = CHR ''s'' \<or> b = CHR ''d'')
                 then Some (length (takeWhile is_digit r) + 3) else None
             | _ \<Rightarrow> None)
          else None)"

text \<open>
  The pattern \<open>%[sd](?![0-9])\<close> at the start of a text: a percent sign and one of the
  letters \<open>s\<close>, \<open>d\<close>, not followed by a digit (the end of the text is allowed).
\<close>

definition match_simple :: "string \<Rightarrow> nat option" where
  "match_simple s =
     (case s of
        a # b # r \<Rightarrow>
          if a = CHR ''%'' \<and> (b = CHR ''s'' \<or> b = CHR ''d'')
             \<and> (case r of [] \<Rightarrow> True | x # _ \<Rightarrow> \<not> is_digit x)
          then Some 2 else None
      | _ \<Rightarrow> None)"

definition numbered_matches :: "string \<Rightarrow> (nat \<times> string) list" where
  "numbered_matches text = finditer match_numbered 0 text"

definition simple_matches :: "string \<Rightarrow> (nat \<times> string) list" where
  "simple_matches text = finditer match_simple 0 text"

text \<open>
  \<open>APKStringExtractor._extract_placeholders\<close>: the first loop appends \<open>group(0)\<close> of
  every numbered match, the second loop that of every simple match.
\<close>

definition extract_placeholders :: "string \<Rightarrow> string list" where
  "extract_placeholders text =
     (if text = [] then []
      else
        let placeholders = [];
            placeholders = placeholders @ map snd (numbered_matches text);
            placeholders = placeholders @ map snd (simple_matches text)
        in placeholders)"

text \<open>
  The placeholders of a text in document order: the matches of both patterns, ordered by
  their start position. (No two matches start at the same position: after the percent
  sign the first pattern needs a digit and the second a letter.)
\<close>

definition document_order :: "string \<Rightarrow> string list" where
  "document_order text = map snd (sort_key fst (numbered_matches text @ simple_matches text))"

text \<open>
  \<open>normalize_to_types\<close>, the local function of \<open>_compare_placeholders\<close>: a placeholder
  ending in \<open>s\<close> gives \<open>s\<close>, one ending in \<open>d\<close> gives \<open>d\<close>, any other gives nothing.
\<close>

definition endswith_char :: "string \<Rightarrow> char \<Rightarrow> bool" where
  "endswith_char s c = (s \<noteq> [] \<and> last s = c)"

definition type_letter :: "string \<Rightarrow> string" where
  "type_letter ph =
     (if endswith_char ph (CHR ''s'') then ''s''
      else if endswith_char ph (CHR ''d'') then ''d'' else [])"

definition normalize_to_types :: "string list \<Rightarrow> string list" where
  "normalize_to_types placeholders = filter (\<lambda>t. t \<noteq> []) (map type_letter placeholders)"

text \<open>
  A Python dictionary is an association list with distinct keys, in insertion order:
  \<open>d[k] = v\<close> is \<open>AList.update k v d\<close> (an old key keeps its place, a new one goes to
  the end), \<open>d.get(k)\<close> is \<open>map_of d k\<close>, \<open>{}\<close> and \<open>not d\<close> are \<open>[]\<close> and \<open>d = []\<close>.
  Two dictionaries are equal when every item of one is an item of the other.
\<close>

definition dict_eq :: "('k \<times> 'v) list \<Rightarrow> ('k \<times> 'v) list \<Rightarrow> bool" where
  "dict_eq a b = (list_all (\<lambda>kv. kv \<in> set b) a \<and> list_all (\<lambda>kv. kv \<in> set a) b)"

text \<open>
  \<open>collections.Counter\<close> of a list: every element in turn has its count, 0 when it is
  not yet a key, raised by one.
\<close>

definition counter_add :: "('a \<times> nat) list \<Rightarrow> 'a \<Rightarrow> ('a \<times> nat) list" where
  "counter_add c x = AList.update x (case map_of c x of None \<Rightarrow> 1 | Some n \<Rightarrow> Suc n) c"

definition Counter :: "'a list \<Rightarrow> ('a \<times> nat) list" where
  "Counter xs = foldl counter_add [] xs"

text \<open>
  \<open>APKStringExtractor._compare_placeholders\<close>. The parameters are declared \<open>str\<close>; an
  absent text reaches the comparison as the empty string (the caller reads it with
  \<open>translations.get(lang, "")\<close>).
\<close>

definition compare_placeholders :: "string \<Rightarrow> string \<Rightarrow> bool" where
  "compare_placeholders default_text other_text =
     (if default_text = [] \<or> other_text = [] then default_text = other_text
      else
        let default_placeholders = extract_placeholders default_text;
            other_placeholders = extract_placeholders other_text
        in dict_eq (Counter (normalize_to_types default_placeholders))
                   (Counter (normalize_to_types other_placeholders)))"

text \<open>\<open>translations.get(lang, "")\<close> on a dictionary from locale to text.\<close>

definition get_text :: "(string \<times> string) list \<Rightarrow> string \<Rightarrow> string" where
  "get_text translations lang = (case map_of translations lang of None \<Rightarrow> [] | Some v \<Rightarrow> v)"

text \<open>
  \<open>APKStringExtractor._get_placeholder_anomaly_languages\<close>. The baseline is
  \<open>languages[0]\<close>; the guard before it leaves at least two languages, so the index is in
  range and the alternative \<open>"default"\<close> of the source's conditional is never taken.
\<close>

definition get_placeholder_anomaly_languages ::
    "(string \<times> string) list \<Rightarrow> string list \<Rightarrow> string list" where
  "get_placeholder_anomaly_languages translations languages =
     (if translations = [] \<or> length languages \<le> 1 then []
      else
        let default_lang = (case languages of [] \<Rightarrow> ''default'' | l # _ \<Rightarrow> l);
            default_text = get_text translations default_lang
        in if default_text = [] then []
           else filter (\<lambda>lang. get_text translations lang \<noteq> []
                          \<and> \<not> compare_placeholders default_text (get_text translations lang))
                       (drop 1 languages))"

section \<open>Building the resource table\<close>





subsection \<open>Textual resource files (simple extractor)\<close>










datatype error = ValueError


subsection \<open>The dump of the compiled resource table (local-tools extractor)\<close>












subsection \<open>The tables of a run\<close>






section \<open>The report\<close>

text \<open>
  The choice of the report's languages at the start of \<open>create_dataframe\<close> (the same
  in both extractors). \<open>supported_languages\<close> is \<open>None\<close> or a list, and the test
  \<open>if self.supported_languages\<close> fails for \<open>None\<close> and for the empty list;
  \<open>languages\<close> is the set of the locales found. The second component is the set that
  the first branch prints as filtered out.
\<close>

definition select_languages ::
    "string list option \<Rightarrow> string set \<Rightarrow> string list \<times> string set option" where
  "select_languages supported_languages languages =
     (case supported_languages of
        Some (l # ls) \<Rightarrow>
          let selected = filter (\<lambda>lang. lang \<in> languages) (l # ls)
          in (selected, Some (languages - set selected))
      | _ \<Rightarrow>
          let sorted_languages = sorted_list_of_set languages
          in if ''default'' \<in> set sorted_languages
             then (''default'' # remove1 ''default'' sorted_languages, None)
             else (sorted_languages, None))"

text \<open>The loop of \<open>create_dataframe\<close> that counts the missing translations of one key.\<close>

definition count_missing :: "(string \<times> string) list \<Rightarrow> string list \<Rightarrow> nat" where
  "count_missing translations languages =
     foldl (\<lambda>missing_count lang.
              if get_text translations lang = [] then missing_count + 1 else missing_count)
           0 languages"

text \<open>
  One row of the report: the key, the number of missing languages and one text per
  language of the report, in its order. The local-tools extractor adds the languages
  with a placeholder anomaly; the simple extractor has no such column.
\<close>

record simple_row =
  Key :: string
  missing_count :: nat
  columns :: "(string \<times> string) list"

record row = simple_row +
  anomaly_langs :: "string list"


definition make_row :: "string \<Rightarrow> (string \<times> string) list \<Rightarrow> string list \<Rightarrow> row" where
  "make_row key translations languages =
     \<lparr> Key = key,
       missing_count = count_missing translations languages,
       columns = map (\<lambda>lang. (lang, get_text translations lang)) languages,
       anomaly_langs = get_placeholder_anomaly_languages translations languages \<rparr>"


definition create_dataframe ::
    "(string \<times> (string \<times> string) list) list \<Rightarrow> string list option \<Rightarrow> string set
       \<Rightarrow> error + row list" where
  "create_dataframe strings_data supported_languages languages =
     (if strings_data = [] then Inl ValueError
      else
        let langs = fst (select_languages supported_languages languages)
        in Inr (sort_key Key (map (\<lambda>(key, translations). make_row key translations langs)
                                  strings_data)))"

section \<open>Predicates used in the proofs\<close>



section \<open>Properties\<close>

subsection \<open>Locale codes\<close>

text \<open>
  C7. The locale code is a function of the directory name alone (the method reads no
  field of the extractor and does no input or output, so the model takes the name as its
  only argument), and it maps \<open>values\<close> to \<open>default\<close>, \<open>values-en-rUS\<close> to \<open>en-US\<close> and
  \<open>values-zh\<close> to \<open>zh\<close>.
\<close>

theorem extract_language_code_examples:
  "extract_language_code ''values'' = ''default''
   \<and> extract_language_code ''values-en-rUS'' = ''en-US''
   \<and> extract_language_code ''values-zh'' = ''zh''"
  by (simp add: extract_language_code_def is_upper_def)


subsection \<open>Counters and multisets\<close>










subsection \<open>The scan for placeholders\<close>







subsection \<open>Comparison and anomalies\<close>

lemmas placeholder_eval =
  compare_placeholders_def extract_placeholders_def numbered_matches_def simple_matches_def
  match_numbered_def match_simple_def is_digit_def normalize_to_types_def type_letter_def
  endswith_char_def Counter_def counter_add_def dict_eq_def document_order_def

lemma anomaly_languages_eq:
  "get_placeholder_anomaly_languages translations (d # rest) =
     (if get_text translations d = [] then []
      else filter (\<lambda>lang. get_text translations lang \<noteq> []
                     \<and> \<not> compare_placeholders (get_text translations d) (get_text translations lang))
                  rest)"
proof (cases "translations = [] \<or> rest = []")
  case True
  then show ?thesis
    by (auto simp: get_placeholder_anomaly_languages_def get_text_def)
next
  case False
  then show ?thesis
    by (auto simp: get_placeholder_anomaly_languages_def Let_def)
qed



text \<open>
  C4. With the default locale \<open>d\<close> first in the list, a locale is among the anomalies
  exactly when it is one of the other locales of the list, its text is not empty and the
  comparison with the default text is false, all this when the default text is not empty;
  when the default text is empty there is no anomaly at all. (The second sentence of the
  claim is the exception to the first: against an empty default text every non-empty
  text compares false, and still nothing is reported.)
\<close>

theorem anomaly_languages_iff:
  "(l \<in> set (get_placeholder_anomaly_languages translations (d # rest)) \<longleftrightarrow>
      get_text translations d \<noteq> [] \<and> l \<in> set rest \<and> get_text translations l \<noteq> []
      \<and> \<not> compare_placeholders (get_text translations d) (get_text translations l))
   \<and> (get_text translations d = [] \<longrightarrow>
        get_placeholder_anomaly_languages translations (d # rest) = [])"
  by (auto simp: anomaly_languages_eq)

theorem anomaly_languages_iff_witness:
  "get_text [(''fr'', ''Bonjour %d'')] ''default'' = []
   \<and> get_placeholder_anomaly_languages [(''fr'', ''Bonjour %d'')] [''default'', ''fr''] = []
   \<and> ''fr'' \<in> set (get_placeholder_anomaly_languages
         [(''default'', ''Hi %s''), (''fr'', ''Bonjour %d''), (''de'', ''Hallo %s'')]
         [''default'', ''fr'', ''de'', ''it''])
   \<and> ''de'' \<notin> set (get_placeholder_anomaly_languages
         [(''default'', ''Hi %s''), (''fr'', ''Bonjour %d''), (''de'', ''Hallo %s'')]
         [''default'', ''fr'', ''de'', ''it''])
   \<and> ''it'' \<notin> set (get_placeholder_anomaly_languages
         [(''default'', ''Hi %s''), (''fr'', ''Bonjour %d''), (''de'', ''Hallo %s'')]
         [''default'', ''fr'', ''de'', ''it''])"
  using anomaly_languages_iff [of _ "[(''fr'', ''Bonjour %d'')]" "''default''" "[''fr'']"]
    anomaly_languages_iff [of "''fr''"
      "[(''default'', ''Hi %s''), (''fr'', ''Bonjour %d''), (''de'', ''Hallo %s'')]"
      "''default''" "[''fr'', ''de'', ''it'']"]
    anomaly_languages_iff [of "''de''"
      "[(''default'', ''Hi %s''), (''fr'', ''Bonjour %d''), (''de'', ''Hallo %s'')]"
      "''default''" "[''fr'', ''de'', ''it'']"]
    anomaly_languages_iff [of "''it''"
      "[(''default'', ''Hi %s''), (''fr'', ''Bonjour %d''), (''de'', ''Hallo %s'')]"
      "''default''" "[''fr'', ''de'', ''it'']"]
  by (simp add: get_text_def placeholder_eval)


subsection \<open>Unescaping\<close>

text \<open>
  C1. The five platform escapes are replaced one after the other, each over the whole
  result of the one before, the doubled backslash last. On the three characters
  backslash, backslash, \<open>n\<close> the replacement of backslash-\<open>n\<close> therefore finds the second
  backslash and the \<open>n\<close>: the text becomes a backslash followed by a newline, of which
  the final \<open>strip\<close> leaves the backslash alone (inside a longer text the newline
  stays). The result is not a backslash followed by \<open>n\<close>.
\<close>

theorem unescape_xml_escaped_backslash_n:
  "unescape_xml [bslash, bslash, CHR ''n''] = [bslash]
   \<and> unescape_xml [bslash, bslash, CHR ''n''] \<noteq> [bslash, CHR ''n'']
   \<and> unescape_xml (''a'' @ [bslash, bslash, CHR ''n''] @ ''b'') = ''a'' @ [bslash, newline] @ ''b''"
  by (simp add: unescape_xml_def strip_def isspace_def)

subsection \<open>The languages of the report\<close>

lemma select_languages_allow:
  "select_languages (Some (a # as)) languages =
     (filter (\<lambda>lang. lang \<in> languages) (a # as), Some (languages - set (a # as)))"
  by (auto simp: select_languages_def Let_def)

lemma select_languages_all:
  assumes "finite languages" and "supported_languages = None \<or> supported_languages = Some []"
  shows "select_languages supported_languages languages =
     (if ''default'' \<in> languages
      then ''default'' # sorted_list_of_set (languages - {''default''})
      else sorted_list_of_set languages, None)"
  using assms by (auto simp: select_languages_def Let_def sorted_list_of_set_remove)

text \<open>
  C5. With a non-empty allow-list the languages of the report are the entries of the
  allow-list that were found, in the order of the allow-list, and the set reported as
  filtered out is that of the found locales outside the list. Without one (or with an
  empty one) they are the found locales in increasing lexicographic order, except that
  \<open>default\<close>, when found, comes first.
\<close>

theorem select_languages_spec:
  "fst (select_languages (Some (a # as)) languages) = filter (\<lambda>lang. lang \<in> languages) (a # as)
   \<and> subseq (fst (select_languages (Some (a # as)) languages)) (a # as)
   \<and> set (fst (select_languages (Some (a # as)) languages)) = set (a # as) \<inter> languages
   \<and> snd (select_languages (Some (a # as)) languages) = Some (languages - set (a # as))
   \<and> (finite languages \<longrightarrow> supported_languages = None \<or> supported_languages = Some [] \<longrightarrow>
        select_languages supported_languages languages =
          (if ''default'' \<in> languages
           then ''default'' # sorted_list_of_set (languages - {''default''})
           else sorted_list_of_set languages, None))"
  using select_languages_all [of languages supported_languages]
  by (auto simp: select_languages_allow)

theorem select_languages_spec_witness:
  "finite {''fr'', ''default'', ''de''}
   \<and> select_languages None {''fr'', ''default'', ''de''} = ([''default'', ''de'', ''fr''], None)
   \<and> select_languages (Some []) {''fr'', ''zh'', ''de''} = ([''de'', ''fr'', ''zh''], None)
   \<and> select_languages (Some [''fr'', ''it'', ''default'']) {''fr'', ''default'', ''de''}
       = ([''fr'', ''default''], Some {''de''})"
  using select_languages_spec [of "''fr''" "[''it'', ''default'']" "{''fr'', ''default'', ''de''}" None]
    select_languages_spec [of "''fr''" "[''it'', ''default'']" "{''fr'', ''zh'', ''de''}" "Some []"]
  by (simp add: select_languages_allow insert_Diff_if)


subsection \<open>Missing translations\<close>

lemma foldl_count_missing:
  "foldl (\<lambda>missing_count lang.
            if get_text translations lang = [] then missing_count + 1 else missing_count)
         n languages
   = n + length (filter (\<lambda>lang. get_text translations lang = []) languages)"
  by (induction languages arbitrary: n) simp_all

lemma count_missing_eq:
  "count_missing translations languages =
     length (filter (\<lambda>lang. get_text translations lang = []) languages)"
  by (simp add: count_missing_def foldl_count_missing)

lemma get_text_empty_iff:
  "get_text translations lang = [] \<longleftrightarrow>
     map_of translations lang = None \<or> map_of translations lang = Some []"
  by (simp add: get_text_def split: option.splits)

lemma get_text_nonempty_iff:
  "get_text translations lang \<noteq> [] \<longleftrightarrow> (\<exists>v. map_of translations lang = Some v \<and> v \<noteq> [])"
  by (simp add: get_text_def split: option.splits)

lemma create_dataframe_rows:
  assumes "create_dataframe strings_data supported_languages languages = Inr rows"
    and "r \<in> set rows"
  shows "\<exists>translations. (Key r, translations) \<in> set strings_data
           \<and> r = make_row (Key r) translations (fst (select_languages supported_languages languages))"
proof -
  from assms have "r \<in> (\<lambda>(key, translations).
      make_row key translations (fst (select_languages supported_languages languages)))
        ` set strings_data"
    by (auto simp: create_dataframe_def Let_def split: if_splits)
  then obtain key tr where "(key, tr) \<in> set strings_data"
    and "r = make_row key tr (fst (select_languages supported_languages languages))"
    by auto
  moreover from this have "Key r = key" by (simp add: make_row_def)
  ultimately show ?thesis by auto
qed

text \<open>
  C6. Every row of the report belongs to a key of the table; its missing count is the
  number of report languages for which the key has no text or the empty text, and the
  number of report languages minus the missing count is the number of those with a
  non-empty text.
\<close>

theorem missing_count_spec:
  assumes "create_dataframe strings_data supported_languages languages = Inr rows"
    and "r \<in> set rows"
    and "langs = fst (select_languages supported_languages languages)"
  shows "\<exists>translations. (Key r, translations) \<in> set strings_data
           \<and> columns r = map (\<lambda>lang. (lang, get_text translations lang)) langs
           \<and> missing_count r =
               length (filter (\<lambda>lang. map_of translations lang = None
                                     \<or> map_of translations lang = Some []) langs)
           \<and> length langs - missing_count r =
               length (filter (\<lambda>lang. \<exists>v. map_of translations lang = Some v \<and> v \<noteq> []) langs)"
proof -
  from create_dataframe_rows [OF assms(1,2)] assms(3) obtain tr
    where tr: "(Key r, tr) \<in> set strings_data"
      and r: "r = make_row (Key r) tr langs"
    by auto
  let ?e = "\<lambda>lang. get_text tr lang = []"
  from arg_cong [OF r, of columns]
  have c: "columns r = map (\<lambda>lang. (lang, get_text tr lang)) langs"
    by (simp add: make_row_def)
  from arg_cong [OF r, of missing_count]
  have m: "missing_count r = length (filter ?e langs)"
    by (simp add: make_row_def count_missing_eq)
  have "length langs = length (filter ?e langs) + length (filter (\<lambda>lang. \<not> ?e lang) langs)"
    by (rule sum_length_filter_compl [symmetric])
  with m have n: "length langs - missing_count r = length (filter (\<lambda>lang. \<not> ?e lang) langs)"
    by simp
  have e1: "?e = (\<lambda>lang. map_of tr lang = None \<or> map_of tr lang = Some [])"
    by (simp add: get_text_empty_iff)
  have e2: "(\<lambda>lang. \<not> ?e lang) = (\<lambda>lang. \<exists>v. map_of tr lang = Some v \<and> v \<noteq> [])"
    by (simp add: get_text_nonempty_iff)
  from tr c m n show ?thesis
    unfolding e1 e2 by blast
qed


lemmas report_eval =
  create_dataframe_def select_languages_def make_row_def count_missing_def get_text_def
  get_placeholder_anomaly_languages_def

theorem missing_count_spec_witness:
  "create_dataframe
     [(''greet'', [(''default'', ''Hi''), (''fr'', [])]), (''bye'', [(''default'', ''Bye'')])]
     None {''fr'', ''default'', ''de''}
   = Inr [\<lparr>Key = ''bye'', missing_count = 2,
            columns = [(''default'', ''Bye''), (''de'', []), (''fr'', [])], anomaly_langs = []\<rparr>,
          \<lparr>Key = ''greet'', missing_count = 2,
            columns = [(''default'', ''Hi''), (''de'', []), (''fr'', [])], anomaly_langs = []\<rparr>]
   \<and> (\<exists>tr. (''greet'', tr) \<in> set [(''greet'', [(''default'', ''Hi''), (''fr'', [])]),
                                      (''bye'', [(''default'', ''Bye'')])]
         \<and> 2 = length (filter (\<lambda>lang. map_of tr lang = None \<or> map_of tr lang = Some [])
                          [''default'', ''de'', ''fr''])
         \<and> 3 - 2 = length (filter (\<lambda>lang. \<exists>v. map_of tr lang = Some v \<and> v \<noteq> [])
                          [''default'', ''de'', ''fr'']))"
proof -
  let ?sd = "[(''greet'', [(''default'', ''Hi''), (''fr'', [])]), (''bye'', [(''default'', ''Bye'')])]"
  let ?r = "\<lparr>Key = ''greet'', missing_count = 2,
            columns = [(''default'', ''Hi''), (''de'', []), (''fr'', [])], anomaly_langs = []\<rparr>"
  let ?rows = "[\<lparr>Key = ''bye'', missing_count = 2,
            columns = [(''default'', ''Bye''), (''de'', []), (''fr'', [])], anomaly_langs = []\<rparr>, ?r]"
  have l: "[''default'', ''de'', ''fr''] = fst (select_languages None {''fr'', ''default'', ''de''})"
    by (simp add: select_languages_def)
  have c: "create_dataframe ?sd None {''fr'', ''default'', ''de''} = Inr ?rows"
    by (simp add: report_eval placeholder_eval)
  have m: "?r \<in> set ?rows" by simp
  from missing_count_spec [OF c m l] c show ?thesis by simp
qed

subsection \<open>The baseline of the anomalies\<close>

text \<open>
  C9. For a list of at least two languages the anomalies are judged against the text of
  the first language of the list, whatever it is. The rows of the report are computed
  with the selected languages, so with an allow-list the baseline is the first entry of
  the allow-list that was found, not \<open>default\<close>.
\<close>

theorem anomaly_baseline_is_first_language:
  assumes "2 \<le> length languages"
  shows "get_placeholder_anomaly_languages tr languages =
           (if get_text tr (hd languages) = [] then []
            else filter (\<lambda>lang. get_text tr lang \<noteq> []
                           \<and> \<not> compare_placeholders (get_text tr (hd languages)) (get_text tr lang))
                        (tl languages))
         \<and> (languages = fst (select_languages (Some (a # as)) found) \<longrightarrow>
              hd languages = hd (filter (\<lambda>lang. lang \<in> found) (a # as))
              \<and> anomaly_langs (make_row key tr languages) =
                  get_placeholder_anomaly_languages tr languages)"
proof -
  from assms obtain d rest where "languages = d # rest" by (cases languages) auto
  then show ?thesis
    by (simp add: anomaly_languages_eq make_row_def select_languages_allow)
qed

theorem anomaly_baseline_is_first_language_witness:
  "2 \<le> length [''fr'', ''default'']
   \<and> [''fr'', ''default''] = fst (select_languages (Some [''fr'', ''default'']) {''default'', ''fr''})
   \<and> get_placeholder_anomaly_languages [(''default'', ''Hi %s''), (''fr'', ''Bonjour %d'')]
        [''fr'', ''default''] = [''default'']
   \<and> anomaly_langs (make_row ''greet'' [(''default'', ''Hi %s''), (''fr'', ''Bonjour %d'')]
        [''fr'', ''default'']) = [''default'']
   \<and> get_placeholder_anomaly_languages [(''default'', ''Hi %s''), (''fr'', ''Bonjour %d'')]
        [''default'', ''fr''] = [''fr'']"
proof -
  have h: "2 \<le> length [''fr'', ''default'']" by simp
  have s: "[''fr'', ''default''] = fst (select_languages (Some [''fr'', ''default'']) {''default'', ''fr''})"
    by (simp add: select_languages_def)
  have d: "2 \<le> length [''default'', ''fr'']" by simp
  from anomaly_baseline_is_first_language [OF h, of "[(''default'', ''Hi %s''), (''fr'', ''Bonjour %d'')]"
      "''fr''" "[''default'']" "{''default'', ''fr''}" "''greet''"]
    anomaly_baseline_is_first_language [OF d, of "[(''default'', ''Hi %s''), (''fr'', ''Bonjour %d'')]"]
    h s
  show ?thesis
    by (simp add: get_text_def placeholder_eval)
qed


subsection \<open>A locale whose resource file is binary\<close>



















subsection \<open>No key without a locale entry\<close>




















end
